theory Spec2Isabelle
  imports Complex_Main
begin

section \<open>Python values\<close>

text \<open>
  The program is a single Python module, \<^verbatim>\<open>app.py\<close>. Its functions receive the
  JSON-like structures of the extraction library and the values of the user interface,
  so the model has one type of Python values. \<^verbatim>\<open>isinstance(x, int)\<close> holds for
  \<^verbatim>\<open>int\<close> and for its subclass \<^verbatim>\<open>bool\<close>: both are values of \<open>pyint\<close>.
  Dictionaries have string keys and are association lists read with \<open>map_of\<close>.
  A float is carried but never inspected, except for its truth value.
\<close>

datatype pyint = PInt int | PBool bool

datatype pyval =
    PNone
  | PNum pyint
  | PFloat real
  | PStr string
  | PList "pyval list"
  | PDict "(string \<times> pyval) list"

datatype pyerror =
    TypeError
  | AttributeError
  | IndexError
  | KeyError
  | OSError string
  | LibraryError string

text \<open>\<^verbatim>\<open>d.get(k)\<close> and \<^verbatim>\<open>d.get(k, default)\<close> on a dictionary.\<close>

definition dict_get :: "(string \<times> pyval) list \<Rightarrow> string \<Rightarrow> pyval \<Rightarrow> pyval" where
  "dict_get d k dflt = (case map_of d k of None \<Rightarrow> dflt | Some v \<Rightarrow> v)"

text \<open>\<^verbatim>\<open>x.get(k, default)\<close> on any value: only a dictionary has the method.\<close>

definition py_get :: "pyval \<Rightarrow> string \<Rightarrow> pyval \<Rightarrow> pyerror + pyval" where
  "py_get x k dflt = (case x of PDict d \<Rightarrow> Inr (dict_get d k dflt) | _ \<Rightarrow> Inl AttributeError)"

text \<open>The value of an \<^verbatim>\<open>int\<close> instance as a number: \<^verbatim>\<open>True\<close> is 1, \<^verbatim>\<open>False\<close> is 0.\<close>

fun int_of_pyint :: "pyint \<Rightarrow> int" where
  "int_of_pyint (PInt n) = n"
| "int_of_pyint (PBool b) = (if b then 1 else 0)"

text \<open>Truth value of a Python object, as \<^verbatim>\<open>not x\<close> reads it.\<close>

fun py_truthy :: "pyval \<Rightarrow> bool" where
  "py_truthy PNone = False"
| "py_truthy (PNum n) = (int_of_pyint n \<noteq> 0)"
| "py_truthy (PFloat x) = (x \<noteq> 0)"
| "py_truthy (PStr s) = (s \<noteq> [])"
| "py_truthy (PList xs) = (xs \<noteq> [])"
| "py_truthy (PDict d) = (d \<noteq> [])"

subsection \<open>Decimal text of an integer\<close>

definition digit_char :: "nat \<Rightarrow> char" where
  "digit_char d = ''0123456789'' ! d"

fun str_nat :: "nat \<Rightarrow> string" where
  "str_nat n = (if n < 10 then [digit_char n] else str_nat (n div 10) @ [digit_char (n mod 10)])"

declare str_nat.simps [simp del]

definition str_int :: "int \<Rightarrow> string" where
  "str_int i = (if i < 0 then CHR ''-'' # str_nat (nat (- i)) else str_nat (nat i))"

text \<open>\<^verbatim>\<open>str(x)\<close>, which an f-string applies, on an instance of \<^verbatim>\<open>int\<close>.\<close>

fun str_pyint :: "pyint \<Rightarrow> string" where
  "str_pyint (PInt n) = str_int n"
| "str_pyint (PBool b) = (if b then ''True'' else ''False'')"

section \<open>Regular expressions\<close>

text \<open>
  The two patterns of the module use character classes, sequence, alternation and the
  greedy star of a character class. A class is a list of inclusive ranges.
  \<open>ends r s\<close> lists the lengths of the prefixes of \<open>s\<close> that \<open>r\<close> matches, in the order in
  which a backtracking matcher tries them: the left alternative first, the longest
  repetition first. The match found at a position is the first of them.
\<close>

type_synonym charclass = "(char \<times> char) list"

definition in_class :: "charclass \<Rightarrow> char \<Rightarrow> bool" where
  "in_class rs c =
     list_ex (\<lambda>(lo, hi). (of_char lo :: nat) \<le> of_char c \<and> (of_char c :: nat) \<le> of_char hi) rs"

datatype regex =
    Cls charclass
  | Seq regex regex
  | Alt regex regex
  | Star charclass

fun ends :: "regex \<Rightarrow> string \<Rightarrow> nat list" where
  "ends (Cls rs) s = (case s of [] \<Rightarrow> [] | c # _ \<Rightarrow> if in_class rs c then [1] else [])"
| "ends (Seq a b) s = concat (map (\<lambda>i. map (\<lambda>j. i + j) (ends b (drop i s))) (ends a s))"
| "ends (Alt a b) s = ends a s @ ends b s"
| "ends (Star rs) s = rev [0 ..< Suc (length (takeWhile (in_class rs) s))]"

definition match_at :: "regex \<Rightarrow> string \<Rightarrow> nat option" where
  "match_at r s = (case ends r s of [] \<Rightarrow> None | n # _ \<Rightarrow> Some n)"

text \<open>
  \<^verbatim>\<open>re.sub(pattern, repl, string)\<close> with a constant replacement: scan from the left; where
  the pattern matches, emit the replacement and continue after the match; elsewhere copy
  the character. The third argument counts the characters of the current match that are
  still to be skipped. An empty match emits the replacement and copies the character.
\<close>

fun re_sub_from :: "regex \<Rightarrow> string \<Rightarrow> nat \<Rightarrow> string \<Rightarrow> string" where
  "re_sub_from r repl k [] = (if k = 0 \<and> match_at r [] = Some 0 then repl else [])"
| "re_sub_from r repl (Suc k) (c # cs) = re_sub_from r repl k cs"
| "re_sub_from r repl 0 (c # cs) =
     (case match_at r (c # cs) of
        None \<Rightarrow> c # re_sub_from r repl 0 cs
      | Some 0 \<Rightarrow> repl @ c # re_sub_from r repl 0 cs
      | Some (Suc n) \<Rightarrow> repl @ re_sub_from r repl n cs)"

definition re_sub :: "regex \<Rightarrow> string \<Rightarrow> string \<Rightarrow> string" where
  "re_sub r repl s = re_sub_from r repl 0 s"

section \<open>Helper functions of the module\<close>

text \<open>The class \<^verbatim>\<open>[<>:"/\\|?*]\<close>: nine single characters.\<close>

definition invalid_chars :: charclass where
  "invalid_chars =
     [(CHR ''<'', CHR ''<''), (CHR ''>'', CHR ''>''), (CHR '':'', CHR '':''),
      (CHR 0x22, CHR 0x22), (CHR ''/'', CHR ''/''), (CHR 0x5C, CHR 0x5C),
      (CHR ''|'', CHR ''|''), (CHR ''?'', CHR ''?''), (CHR ''*'', CHR ''*'')]"

definition sanitize_filename :: "string \<Rightarrow> string" where
  "sanitize_filename filename = re_sub (Cls invalid_chars) ''_'' filename"


text \<open>
  The pattern \<^verbatim>\<open>\x1B(?:[@-Z\\-_]|\[[0-?]*[ -/]*[@-~])\<close>: the escape character, then either
  one character of \<^verbatim>\<open>@\<close>..\<^verbatim>\<open>Z\<close> or of backslash..\<^verbatim>\<open>_\<close>, or an opening bracket, any
  number of \<^verbatim>\<open>0\<close>..\<^verbatim>\<open>?\<close>, any number of space..\<^verbatim>\<open>/\<close>, and one of \<^verbatim>\<open>@\<close>..\<^verbatim>\<open>~\<close>.
\<close>

definition ansi_escape :: regex where
  "ansi_escape =
     Seq (Cls [(CHR 0x1B, CHR 0x1B)])
       (Alt (Cls [(CHR ''@'', CHR ''Z''), (CHR 0x5C, CHR ''_'')])
            (Seq (Cls [(CHR ''['', CHR ''['')])
               (Seq (Star [(CHR ''0'', CHR ''?'')])
                  (Seq (Star [(CHR '' '', CHR ''/'')])
                     (Cls [(CHR ''@'', CHR ''~'')])))))"

definition sanitize_for_display :: "pyval \<Rightarrow> string" where
  "sanitize_for_display text =
     (case text of PStr s \<Rightarrow> re_sub ansi_escape [] s | _ \<Rightarrow> [])"

section \<open>Quality extraction\<close>

text \<open>
  \<^verbatim>\<open>qualities\<close> is a Python set of \<^verbatim>\<open>int\<close> instances. Its members are kept in the order
  of their insertion; a value equal to a member (\<^verbatim>\<open>True == 1\<close>, \<^verbatim>\<open>False == 0\<close>) is not
  added again.
\<close>

definition set_add :: "pyint \<Rightarrow> pyint list \<Rightarrow> pyint list" where
  "set_add x s = (if list_ex (\<lambda>y. int_of_pyint y = int_of_pyint x) s then s else s @ [x])"

text \<open>
  The body of the loop on one entry \<open>f\<close>. \<^verbatim>\<open>f.get\<close> needs a dictionary;
  \<^verbatim>\<open>isinstance(f.get('height'), int)\<close> is the case \<open>PNum\<close>.
\<close>

definition collect_step :: "pyval \<Rightarrow> pyint list \<Rightarrow> pyerror + pyint list" where
  "collect_step f qualities =
     (case f of
        PDict d \<Rightarrow>
          (if dict_get d ''vcodec'' PNone \<noteq> PStr ''none'' \<and> dict_get d ''ext'' PNone = PStr ''mp4''
           then (case dict_get d ''height'' PNone of
                   PNum h \<Rightarrow> Inr (set_add h qualities)
                 | _ \<Rightarrow> Inr qualities)
           else Inr qualities)
      | _ \<Rightarrow> Inl AttributeError)"

fun collect :: "pyval list \<Rightarrow> pyint list \<Rightarrow> pyerror + pyint list" where
  "collect [] qualities = Inr qualities"
| "collect (f # fs) qualities =
     (case collect_step f qualities of Inl e \<Rightarrow> Inl e | Inr q \<Rightarrow> collect fs q)"

text \<open>What a \<^verbatim>\<open>for\<close> loop iterates over: the items of a list, the characters of a string,
  the keys of a dictionary; any other value is not iterable.\<close>

definition py_iter :: "pyval \<Rightarrow> pyerror + pyval list" where
  "py_iter v =
     (case v of
        PList xs \<Rightarrow> Inr xs
      | PStr s \<Rightarrow> Inr (map (\<lambda>c. PStr [c]) s)
      | PDict d \<Rightarrow> Inr (map PStr (remdups (map fst d)))
      | _ \<Rightarrow> Inl TypeError)"

text \<open>
  \<^verbatim>\<open>sorted(xs, reverse=True)\<close> on \<^verbatim>\<open>int\<close> instances: a stable sort that keeps equal items in
  their original order. The members of a set are pairwise different, so the result does
  not depend on the order in which \<^verbatim>\<open>list(qualities)\<close> lists them.
\<close>

definition py_sorted_reverse :: "pyint list \<Rightarrow> pyint list" where
  "py_sorted_reverse xs = rev (sort_key int_of_pyint (rev xs))"

definition extract_available_qualities :: "pyval \<Rightarrow> pyerror + string list" where
  "extract_available_qualities info_dict =
     (case py_get info_dict ''formats'' (PList []) of
        Inl e \<Rightarrow> Inl e
      | Inr formats \<Rightarrow>
          (case py_iter formats of
             Inl e \<Rightarrow> Inl e
           | Inr fs \<Rightarrow>
               (case collect fs [] of
                  Inl e \<Rightarrow> Inl e
                | Inr qualities \<Rightarrow>
                    if qualities = [] then Inr [''720p'', ''360p'']
                    else Inr (map (\<lambda>q. str_pyint q @ ''p'') (py_sorted_reverse qualities)))))"

section \<open>Progress reporting\<close>

record progress_state =
  step :: int
  total_steps :: int

text \<open>
  The calls on the user interface and on the extraction library that a download makes,
  in the order in which it makes them. A status update carries the new label and, where
  given, the new state and the expanded flag. The fixed texts that begin with a pictograph
  are constructors: \<open>WriteStarting\<close> is \<^verbatim>\<open>st.write("... Starting download process...")\<close>,
  \<open>WriteSaved b\<close> is \<^verbatim>\<open>st.write(f"... File saved as: {b}")\<close>, and
  \<open>DownloadButton b data name mime\<close> is the download button labelled with \<open>b\<close>.
  \<open>UnexpectedError e\<close> is \<^verbatim>\<open>st.error(f"An unexpected error occurred: {e}")\<close>.
\<close>

record ydl_opts =
  outtmpl :: string
  format_sel :: string
  postprocessors :: "pyval list"

datatype ui_action =
    StatusOpen string
  | StatusUpdate string "string option" "bool option"
  | WriteStarting
  | WriteSaved string
  | ErrorMsg string
  | UnexpectedError pyerror
  | ExtractInfo string ydl_opts
  | DownloadButton string string string string

text \<open>\<^verbatim>\<open>d['status']\<close>: a missing key raises, and only a dictionary has string keys.\<close>

definition py_getitem :: "pyval \<Rightarrow> string \<Rightarrow> pyerror + pyval" where
  "py_getitem d k =
     (case d of
        PDict kvs \<Rightarrow> (case map_of kvs k of None \<Rightarrow> Inl KeyError | Some v \<Rightarrow> Inr v)
      | _ \<Rightarrow> Inl TypeError)"

definition progress_hook ::
  "pyval \<Rightarrow> progress_state \<Rightarrow> pyerror + (ui_action list \<times> progress_state)" where
  "progress_hook d ps =
     (case py_getitem d ''status'' of
        Inl e \<Rightarrow> Inl e
      | Inr status \<Rightarrow>
          if status = PStr ''downloading'' then
            (case py_get d ''_percent_str'' (PStr ''0.0%'') of
               Inl e \<Rightarrow> Inl e
             | Inr p \<Rightarrow>
                 (case py_get d ''_speed_str'' (PStr ''N/A'') of
                    Inl e \<Rightarrow> Inl e
                  | Inr s \<Rightarrow>
                      (case py_get d ''_eta_str'' (PStr ''N/A'') of
                         Inl e \<Rightarrow> Inl e
                       | Inr t \<Rightarrow>
                           let percent_str = sanitize_for_display p;
                               speed_str = sanitize_for_display s;
                               eta_str = sanitize_for_display t;
                               step_info = ''Step '' @ str_int (step ps) @ ''/''
                                           @ str_int (total_steps ps) @ '':''
                           in Inr ([StatusUpdate
                                      (step_info @ '' Downloading... '' @ percent_str @ '' (''
                                       @ speed_str @ '' - ETA: '' @ eta_str @ '')'')
                                      None None],
                                   ps))))
          else if status = PStr ''finished'' then
            (let ps' = ps\<lparr>step := step ps + 1\<rparr>;
                 step_info = ''Step '' @ str_int (step ps' - 1) @ ''/''
                             @ str_int (total_steps ps') @ '':''
             in Inr ([StatusUpdate (step_info @ '' Download finished. Starting conversion...'')
                        None None],
                     ps'))
          else Inr ([], ps))"

text \<open>
  The library delivers the stage events of one call to the hook, one after the other; an
  exception of the hook ends the call. The updates published before it stay published.
\<close>

fun run_hooks ::
  "pyval list \<Rightarrow> progress_state \<Rightarrow> ui_action list \<times> (pyerror + progress_state)" where
  "run_hooks [] ps = ([], Inr ps)"
| "run_hooks (d # ds) ps =
     (case progress_hook d ps of
        Inl e \<Rightarrow> ([], Inl e)
      | Inr (acts, ps') \<Rightarrow>
          (case run_hooks ds ps' of (acts', r) \<Rightarrow> (acts @ acts', r)))"

section \<open>Download\<close>

text \<open>
  Lines 69 to 80 of \<^verbatim>\<open>handle_download\<close>: the fresh progress state, the format specifier and
  the post-processing directives. \<^verbatim>\<open>quality_setting[:-1]\<close> is the string without its last
  character; \<^verbatim>\<open>'+' in format_string\<close> asks whether the character occurs.
\<close>

definition download_plan :: "string \<Rightarrow> string \<Rightarrow> string \<times> pyval list \<times> progress_state" where
  "download_plan format_type quality_setting =
     (let progress_state = \<lparr>step = 1, total_steps = 1\<rparr>
      in if format_type = ''mp3'' then
           (''bestaudio/best'',
            [PDict [(''key'', PStr ''FFmpegExtractAudio''),
                    (''preferredcodec'', PStr ''mp3''),
                    (''preferredquality'', PStr quality_setting)]],
            progress_state)
         else
           (let height = butlast quality_setting;
                format_string = ''bestvideo[ext=mp4][height<='' @ height
                                @ '']+bestaudio[ext=m4a]/best[ext=mp4][height<='' @ height @ '']''
            in (format_string, [],
                if CHR ''+'' \<in> set format_string
                then progress_state\<lparr>total_steps := 2\<rparr> else progress_state)))"

text \<open>
  What the download needs from outside the module: the name of the temporary directory,
  the path functions of \<^verbatim>\<open>os.path\<close>, the file system, and the behaviour of the one call of
  \<^verbatim>\<open>ydl.extract_info(url, download=True)\<close>: the stage events it delivers to the hook and
  the structure it returns or the exception it raises.
\<close>

record world =
  temp_dir :: string
  path_join :: "string \<Rightarrow> string \<Rightarrow> string"
  path_basename :: "string \<Rightarrow> string"
  path_exists :: "string \<Rightarrow> bool"
  fd_exists :: "int \<Rightarrow> bool"
  read_bytes :: "string \<Rightarrow> pyerror + string"
  stage_events :: "pyval list"
  extract_result :: "pyerror + pyval"

text \<open>\<^verbatim>\<open>x[0]\<close>.\<close>

definition py_first :: "pyval \<Rightarrow> pyerror + pyval" where
  "py_first x =
     (case x of
        PList [] \<Rightarrow> Inl IndexError
      | PList (y # _) \<Rightarrow> Inr y
      | PStr [] \<Rightarrow> Inl IndexError
      | PStr (c # _) \<Rightarrow> Inr (PStr [c])
      | PDict _ \<Rightarrow> Inl KeyError
      | _ \<Rightarrow> Inl TypeError)"

text \<open>\<^verbatim>\<open>info_dict.get('requested_downloads', [{}])[0].get('filepath')\<close>.\<close>

definition requested_filepath :: "pyval \<Rightarrow> pyerror + pyval" where
  "requested_filepath info_dict =
     (case py_get info_dict ''requested_downloads'' (PList [PDict []]) of
        Inl e \<Rightarrow> Inl e
      | Inr downloads \<Rightarrow>
          (case py_first downloads of
             Inl e \<Rightarrow> Inl e
           | Inr entry \<Rightarrow> py_get entry ''filepath'' PNone))"

text \<open>\<^verbatim>\<open>os.path.exists\<close> takes a path or an open file descriptor; \<^verbatim>\<open>os.path.basename\<close>
  and \<^verbatim>\<open>open\<close> are used on a path.\<close>

definition py_path_exists :: "world \<Rightarrow> pyval \<Rightarrow> pyerror + bool" where
  "py_path_exists w p =
     (case p of
        PStr s \<Rightarrow> Inr (path_exists w s)
      | PNum n \<Rightarrow> Inr (fd_exists w (int_of_pyint n))
      | _ \<Rightarrow> Inl TypeError)"

definition py_basename :: "world \<Rightarrow> pyval \<Rightarrow> pyerror + string" where
  "py_basename w p = (case p of PStr s \<Rightarrow> Inr (path_basename w s) | _ \<Rightarrow> Inl TypeError)"

definition py_read :: "world \<Rightarrow> pyval \<Rightarrow> pyerror + string" where
  "py_read w p = (case p of PStr s \<Rightarrow> read_bytes w s | _ \<Rightarrow> Inl TypeError)"

definition download_failed :: "ui_action list" where
  "download_failed =
     [StatusUpdate ''Download Failed'' (Some ''error'') (Some False),
      ErrorMsg ''Could not retrieve the final file.'']"

text \<open>
  The body of the \<^verbatim>\<open>try\<close> statement: the calls made, and the exception that ended it, if
  one did.
\<close>

definition download_attempt ::
  "world \<Rightarrow> string \<Rightarrow> string \<Rightarrow> ydl_opts \<Rightarrow> progress_state \<Rightarrow> ui_action list \<times> pyerror option" where
  "download_attempt w url format_type opts ps =
     (let started =
            [StatusOpen ''Starting...'',
             StatusUpdate (''Step 1/'' @ str_int (total_steps ps) @ '': Initializing...'') None None,
             WriteStarting,
             ExtractInfo url opts]
      in case run_hooks (stage_events w) ps of
           (hook_acts, Inl e) \<Rightarrow> (started @ hook_acts, Some e)
         | (hook_acts, Inr ps') \<Rightarrow>
             (let acts = started @ hook_acts
              in case extract_result w of
                   Inl e \<Rightarrow> (acts, Some e)
                 | Inr info_dict \<Rightarrow>
                     (case requested_filepath info_dict of
                        Inl e \<Rightarrow> (acts, Some e)
                      | Inr actual_filepath \<Rightarrow>
                          if \<not> py_truthy actual_filepath then (acts @ download_failed, None)
                          else
                            (case py_path_exists w actual_filepath of
                               Inl e \<Rightarrow> (acts, Some e)
                             | Inr ex \<Rightarrow>
                                 if \<not> ex then (acts @ download_failed, None)
                                 else
                                   (case py_basename w actual_filepath of
                                      Inl e \<Rightarrow> (acts, Some e)
                                    | Inr b \<Rightarrow>
                                        (let acts' = acts @
                                               [WriteSaved b,
                                                StatusUpdate ''Download complete!''
                                                  (Some ''complete'') (Some False)]
                                         in case py_read w actual_filepath of
                                              Inl e \<Rightarrow> (acts', Some e)
                                            | Inr file_bytes \<Rightarrow>
                                                (acts' @
                                                 [DownloadButton b file_bytes b
                                                    (if format_type = ''mp3'' then ''audio/mpeg''
                                                     else ''video/mp4'')],
                                                 None)))))))"

definition handle_download ::
  "world \<Rightarrow> string \<Rightarrow> string \<Rightarrow> string \<Rightarrow> string \<Rightarrow> ui_action list" where
  "handle_download w url title format_type quality_setting =
     (let safe_title = sanitize_filename title;
          output_template = path_join w (temp_dir w) (safe_title @ ''.%(ext)s'')
      in case download_plan format_type quality_setting of
           (format_string, pps, progress_state) \<Rightarrow>
             (case download_attempt w url format_type
                     \<lparr>outtmpl = output_template, format_sel = format_string,
                      postprocessors = pps\<rparr>
                     progress_state of
                (acts, None) \<Rightarrow> acts
              | (acts, Some e) \<Rightarrow> acts @ [UnexpectedError e]))"

section \<open>Notions of the specification\<close>

text \<open>The nine characters that the specification of the Filename Sanitizer lists.\<close>

definition forbidden_chars :: string where
  "forbidden_chars =
     [CHR ''<'', CHR ''>'', CHR '':'', CHR 0x22, CHR ''/'', CHR 0x5C, CHR ''|'', CHR ''?'', CHR ''*'']"

text \<open>The options of the bitrate select box in \<^verbatim>\<open>main\<close>.\<close>

definition bitrates :: "string list" where
  "bitrates = [''128'', ''192'', ''256'', ''320'']"

text \<open>A stage event whose status is \<^verbatim>\<open>finished\<close>, and the smallest such event.\<close>

definition is_finished :: "pyval \<Rightarrow> bool" where
  "is_finished d = (py_getitem d ''status'' = Inr (PStr ''finished''))"

definition finished_event :: pyval where
  "finished_event = PDict [(''status'', PStr ''finished'')]"

text \<open>An event from which \<^verbatim>\<open>d['status']\<close> can be read.\<close>

definition has_status :: "pyval \<Rightarrow> bool" where
  "has_status d = (case py_getitem d ''status'' of Inl _ \<Rightarrow> False | Inr _ \<Rightarrow> True)"

definition count_finished :: "pyval list \<Rightarrow> nat" where
  "count_finished evs = length (filter is_finished evs)"

text \<open>The event of the specification's example for a running download.\<close>

definition downloading_event :: pyval where
  "downloading_event =
     PDict [(''status'', PStr ''downloading''), (''_percent_str'', PStr ''45.0%''),
            (''_speed_str'', PStr ''1.2MiB/s''), (''_eta_str'', PStr ''00:10'')]"




text \<open>
  Two runs that leave no file: the library returns one requested download without a
  file path, or with the path of a file that is not there.
\<close>

definition no_file_world :: world where
  "no_file_world =
     \<lparr>temp_dir = ''/tmp/tmpab12'',
      path_join = (\<lambda>a b. a @ ''/'' @ b),
      path_basename = (\<lambda>p. rev (takeWhile (\<lambda>c. c \<noteq> CHR ''/'') (rev p))),
      path_exists = (\<lambda>p. False),
      fd_exists = (\<lambda>n. False),
      read_bytes = (\<lambda>p. Inl (OSError ''No such file or directory'')),
      stage_events = [finished_event],
      extract_result = Inr (PDict [(''requested_downloads'', PList [PDict []])])\<rparr>"


text \<open>
  The acceptance condition of the specification on one format entry: the codec is not
  the sentinel, the container is \<^verbatim>\<open>mp4\<close>, and the height is present and an integer.
  \<open>accepted_heights\<close> lists the heights of the accepted entries, in the order of the
  entries and with repetitions.
\<close>

definition is_int_instance :: "pyval \<Rightarrow> bool" where
  "is_int_instance v = (case v of PNum _ \<Rightarrow> True | _ \<Rightarrow> False)"

definition accepts :: "(string \<times> pyval) list \<Rightarrow> bool" where
  "accepts d \<longleftrightarrow>
     dict_get d ''vcodec'' PNone \<noteq> PStr ''none''
     \<and> dict_get d ''ext'' PNone = PStr ''mp4''
     \<and> is_int_instance (dict_get d ''height'' PNone)"

definition entry_heights :: "(string \<times> pyval) list \<Rightarrow> pyint list" where
  "entry_heights d =
     (if accepts d then (case dict_get d ''height'' PNone of PNum h \<Rightarrow> [h] | _ \<Rightarrow> []) else [])"

definition accepted_heights :: "(string \<times> pyval) list list \<Rightarrow> pyint list" where
  "accepted_heights fs = concat (map entry_heights fs)"

definition fallback_qualities :: "string list" where
  "fallback_qualities = [''720p'', ''360p'']"

definition is_dict :: "pyval \<Rightarrow> bool" where
  "is_dict v = (case v of PDict _ \<Rightarrow> True | _ \<Rightarrow> False)"

text \<open>Metadata whose \<^verbatim>\<open>formats\<close> is missing or is a list of dictionaries.\<close>

definition formats_ok :: "(string \<times> pyval) list \<Rightarrow> bool" where
  "formats_ok d =
     (case map_of d ''formats'' of
        None \<Rightarrow> True
      | Some (PList fs) \<Rightarrow> list_all is_dict fs
      | Some _ \<Rightarrow> False)"

text \<open>
  The formats of the specification's example: heights 1080, 720, 720 and 480 among an
  audio-only entry, a WebM entry, an MP4 entry without video codec and entries whose
  height is missing or not an integer.
\<close>

definition video_format :: "string \<Rightarrow> string \<Rightarrow> pyval \<Rightarrow> (string \<times> pyval) list" where
  "video_format vc ex h = [(''vcodec'', PStr vc), (''ext'', PStr ex), (''height'', h)]"

definition example_formats :: "(string \<times> pyval) list list" where
  "example_formats =
     [video_format ''avc1.64001F'' ''mp4'' (PNum (PInt 720)),
      [(''vcodec'', PStr ''none''), (''ext'', PStr ''m4a''), (''acodec'', PStr ''mp4a.40.2'')],
      video_format ''vp9'' ''webm'' (PNum (PInt 2160)),
      video_format ''avc1.640028'' ''mp4'' (PNum (PInt 1080)),
      video_format ''none'' ''mp4'' (PNum (PInt 1440)),
      video_format ''avc1.64001F'' ''mp4'' (PNum (PInt 720)),
      [(''vcodec'', PStr ''avc1.4D401E''), (''ext'', PStr ''mp4'')],
      video_format ''avc1.4D401E'' ''mp4'' (PFloat 360),
      video_format ''avc1.4D401E'' ''mp4'' PNone,
      video_format ''avc1.4D401E'' ''mp4'' (PNum (PInt 480))]"

definition example_metadata :: "(string \<times> pyval) list" where
  "example_metadata =
     [(''title'', PStr ''Example''), (''formats'', PList (map PDict example_formats))]"

text \<open>Entries that the filter rejects: audio only, another container, no height, a height
  that is a float, a height that is a string.\<close>

definition rejected_formats :: "(string \<times> pyval) list list" where
  "rejected_formats =
     [[(''vcodec'', PStr ''none''), (''ext'', PStr ''m4a'')],
      video_format ''vp9'' ''webm'' (PNum (PInt 2160)),
      [(''vcodec'', PStr ''avc1.4D401E''), (''ext'', PStr ''mp4'')],
      video_format ''avc1.4D401E'' ''mp4'' (PFloat 360),
      video_format ''avc1.4D401E'' ''mp4'' (PStr ''720'')]"

text \<open>
  The escape forms that the specification of the Display Sanitizer names, as ECMA-48
  has them. A two-character escape is the escape character and one character of
  \<^verbatim>\<open>0x40\<close>..\<^verbatim>\<open>0x5F\<close> other than the opening bracket. A CSI sequence is the escape
  character, the opening bracket, parameter characters (\<^verbatim>\<open>0x30\<close>..\<^verbatim>\<open>0x3F\<close>),
  intermediate characters (\<^verbatim>\<open>0x20\<close>..\<^verbatim>\<open>0x2F\<close>) and one final character
  (\<^verbatim>\<open>0x40\<close>..\<^verbatim>\<open>0x7E\<close>). \<open>escape_length s\<close> is the length of the escape sequence
  at the head of \<open>s\<close>, if there is one.
\<close>

definition esc :: char where
  "esc = CHR 0x1B"











section \<open>Properties\<close>

subsection \<open>Decimal texts used below\<close>

lemma str_int_1: "str_int 1 = ''1''"
  by code_simp

lemma str_int_2: "str_int 2 = ''2''"
  by code_simp

subsection \<open>Filename Sanitizer\<close>

lemma in_class_single: "in_class [(a, a)] c \<longleftrightarrow> c = a"
  by (auto simp: in_class_def)

lemma in_class_Cons: "in_class (r # rs) c \<longleftrightarrow> in_class [r] c \<or> in_class rs c"
  by (simp add: in_class_def)

lemma in_class_Nil: "in_class [] c = False"
  by (simp add: in_class_def)

lemma in_class_pair_Cons: "in_class ((a, a) # rs) c \<longleftrightarrow> c = a \<or> in_class rs c"
  using in_class_Cons [of "(a, a)" rs c] by (simp add: in_class_single)

lemma in_class_invalid_chars: "in_class invalid_chars c \<longleftrightarrow> c \<in> set forbidden_chars"
  unfolding invalid_chars_def forbidden_chars_def
  by (simp only: in_class_pair_Cons in_class_Nil set_simps insert_iff empty_iff)

lemma re_sub_from_Cls:
  "re_sub_from (Cls rs) [u] 0 s = map (\<lambda>c. if in_class rs c then u else c) s"
  by (induction s) (simp_all add: match_at_def)

lemma sanitize_filename_map:
  "sanitize_filename s = map (\<lambda>c. if c \<in> set forbidden_chars then CHR ''_'' else c) s"
  by (simp add: sanitize_filename_def re_sub_def re_sub_from_Cls in_class_invalid_chars)

lemma underscore_allowed: "CHR ''_'' \<notin> set forbidden_chars"
  by (simp add: forbidden_chars_def)

text \<open>
  C7. For every string, the Filename Sanitizer returns the string with each of the nine
  characters replaced by an underscore and every other character kept; the result has
  the length of the input and contains none of the nine characters. The function is a
  total function of its argument alone.
\<close>

theorem sanitize_filename_replaces:
  "sanitize_filename s = map (\<lambda>c. if c \<in> set forbidden_chars then CHR ''_'' else c) s
   \<and> length (sanitize_filename s) = length s
   \<and> set (sanitize_filename s) \<inter> set forbidden_chars = {}"
proof -
  have m: "sanitize_filename s = map (\<lambda>c. if c \<in> set forbidden_chars then CHR ''_'' else c) s"
    by (rule sanitize_filename_map)
  have l: "length (sanitize_filename s) = length s"
    by (simp add: m)
  have d: "set (sanitize_filename s) \<inter> set forbidden_chars = {}"
    using underscore_allowed by (auto simp: m)
  from m l d show ?thesis by blast
qed

theorem sanitize_filename_replaces_witness:
  "sanitize_filename ''a<b>c:d/e|f?g*h'' = ''a_b_c_d_e_f_g_h''
   \<and> length (sanitize_filename ''a<b>c:d/e|f?g*h'') = 15"
  using sanitize_filename_replaces [of "''a<b>c:d/e|f?g*h''"]
  by (simp add: forbidden_chars_def)

subsection \<open>Format specifier\<close>

text \<open>
  C9. In mp3 mode, for every bitrate of the select box, the plan requests the best
  available audio and one post-processing directive: audio extraction to MP3 whose
  preferred quality is the requested bitrate string; the call of the library carries
  exactly this specifier and this directive.
\<close>

theorem mp3_plan:
  "q \<in> set bitrates \<Longrightarrow>
   download_plan ''mp3'' q =
     (''bestaudio/best'',
      [PDict [(''key'', PStr ''FFmpegExtractAudio''), (''preferredcodec'', PStr ''mp3''),
              (''preferredquality'', PStr q)]],
      \<lparr>step = 1, total_steps = 1\<rparr>)
   \<and> (\<exists>tmpl. ExtractInfo url
         \<lparr>outtmpl = tmpl, format_sel = ''bestaudio/best'',
          postprocessors =
            [PDict [(''key'', PStr ''FFmpegExtractAudio''), (''preferredcodec'', PStr ''mp3''),
                    (''preferredquality'', PStr q)]]\<rparr>
        \<in> set (handle_download w url title ''mp3'' q))"
  by (auto simp: download_plan_def handle_download_def download_attempt_def Let_def
           split: prod.splits sum.splits option.splits)

theorem mp3_plan_witness:
  "''256'' \<in> set bitrates
   \<and> download_plan ''mp3'' ''256'' =
       (''bestaudio/best'',
        [PDict [(''key'', PStr ''FFmpegExtractAudio''), (''preferredcodec'', PStr ''mp3''),
                (''preferredquality'', PStr ''256'')]],
        \<lparr>step = 1, total_steps = 1\<rparr>)"
proof -
  have h: "''256'' \<in> set bitrates"
    by (simp add: bitrates_def)
  show ?thesis
    using h mp3_plan [OF h] by simp
qed

subsection \<open>Progress Tracker\<close>

text \<open>
  C6. On a stage event whose status is \<^verbatim>\<open>finished\<close>, the hook adds exactly 1 to the step
  and publishes one label: the step number before the event over the total, followed by
  the notice that the download finished and the conversion starts. From step 1 of 2 the
  step becomes 2 and the label begins with \<^verbatim>\<open>Step 1/2\<close>.
\<close>

theorem finished_event_step:
  "py_getitem d ''status'' = Inr (PStr ''finished'') \<Longrightarrow>
   progress_hook d ps =
     Inr ([StatusUpdate (''Step '' @ str_int (step ps) @ ''/'' @ str_int (total_steps ps)
                         @ '': Download finished. Starting conversion...'') None None],
          ps\<lparr>step := step ps + 1\<rparr>)"
  by (simp add: progress_hook_def Let_def)

theorem finished_event_step_witness:
  "py_getitem finished_event ''status'' = Inr (PStr ''finished'')
   \<and> progress_hook finished_event \<lparr>step = 1, total_steps = 2\<rparr> =
       Inr ([StatusUpdate ''Step 1/2: Download finished. Starting conversion...'' None None],
            \<lparr>step = 2, total_steps = 2\<rparr>)"
proof -
  have h: "py_getitem finished_event ''status'' = Inr (PStr ''finished'')"
    by (simp add: py_getitem_def finished_event_def)
  show ?thesis
    using h finished_event_step [OF h, of "\<lparr>step = 1, total_steps = 2\<rparr>"]
    by (simp add: str_int_1 str_int_2)
qed

lemma str_int_480: "str_int 480 = ''480''"
  by code_simp

text \<open>
  C2. In mp4 mode the quality string \<^verbatim>\<open><h>p\<close> of an integer height \<open>h\<close> gives back the
  decimal text of \<open>h\<close>, and the specifier asks for the best MP4 video of at most that
  height joined with the best M4A audio, or else the best single MP4 file of at most that
  height. In every plan the step is 1 and the total is 2 exactly if the specifier
  contains the joining sign, else 1.
\<close>

theorem mp4_plan:
  "download_plan ''mp4'' (str_int h @ ''p'') =
     (''bestvideo[ext=mp4][height<='' @ str_int h
        @ '']+bestaudio[ext=m4a]/best[ext=mp4][height<='' @ str_int h @ '']'',
      [], \<lparr>step = 1, total_steps = 2\<rparr>)
   \<and> (case download_plan format_type q of
        (format_string, pps, ps) \<Rightarrow>
          step ps = 1 \<and> total_steps ps = (if CHR ''+'' \<in> set format_string then 2 else 1))"
  by (simp add: download_plan_def Let_def)

theorem mp4_plan_witness:
  "download_plan ''mp4'' ''480p'' =
     (''bestvideo[ext=mp4][height<=480]+bestaudio[ext=m4a]/best[ext=mp4][height<=480]'',
      [], \<lparr>step = 1, total_steps = 2\<rparr>)"
  using mp4_plan [of 480 "''mp4''" "''480p''"] by (simp add: str_int_480)

subsection \<open>The step counter over a sequence of events\<close>

lemma progress_hook_step:
  "progress_hook d ps = Inr (acts, ps') \<Longrightarrow>
   step ps' = (if is_finished d then step ps + 1 else step ps) \<and> total_steps ps' = total_steps ps"
  by (auto simp: progress_hook_def is_finished_def Let_def split: sum.splits if_splits)

lemma progress_hook_total:
  "has_status d \<Longrightarrow> \<exists>acts ps'. progress_hook d ps = Inr (acts, ps')"
  by (cases d) (auto simp: progress_hook_def has_status_def py_getitem_def py_get_def Let_def
                     split: sum.splits option.splits)



lemma run_hooks_step:
  "run_hooks evs ps = (acts, Inr ps') \<Longrightarrow>
   step ps' = step ps + int (count_finished evs) \<and> total_steps ps' = total_steps ps"
proof (induction evs arbitrary: ps acts)
  case Nil
  then show ?case by (simp add: count_finished_def)
next
  case (Cons d ds)
  from Cons.prems obtain a1 ps1 a2 where
    h: "progress_hook d ps = Inr (a1, ps1)" and r: "run_hooks ds ps1 = (a2, Inr ps')"
    by (auto split: sum.splits prod.splits)
  from progress_hook_step [OF h] Cons.IH [OF r] show ?case
    by (simp add: count_finished_def)
qed

lemma run_hooks_total:
  "list_all has_status evs \<Longrightarrow> \<exists>acts ps'. run_hooks evs ps = (acts, Inr ps')"
proof (induction evs arbitrary: ps)
  case Nil
  show ?case by simp
next
  case (Cons d ds)
  from Cons.prems have "has_status d" and rest: "list_all has_status ds" by simp_all
  then obtain a1 ps1 where h: "progress_hook d ps = Inr (a1, ps1)"
    using progress_hook_total by blast
  from Cons.IH [OF rest, of ps1] obtain a2 ps2 where "run_hooks ds ps1 = (a2, Inr ps2)"
    by blast
  with h show ?case by simp
qed

text \<open>
  C3, as the code has it. The hook has no bound of its own: after any sequence of events
  that carry a status, the step is the starting step plus the number of \<^verbatim>\<open>finished\<close>
  events, and the total is unchanged; an event of any other status leaves the step as it
  is. So, from step 1, the step is at most the total plus 1 whenever the library has
  delivered at most \<open>total_steps\<close> events with status \<^verbatim>\<open>finished\<close>.
\<close>

theorem step_counts_finished:
  "list_all has_status evs \<Longrightarrow>
   \<exists>acts ps'. run_hooks evs ps = (acts, Inr ps')
     \<and> step ps' = step ps + int (count_finished evs)
     \<and> total_steps ps' = total_steps ps
     \<and> (step ps = 1 \<and> int (count_finished evs) \<le> total_steps ps
          \<longrightarrow> step ps' \<le> total_steps ps' + 1)"
proof -
  assume "list_all has_status evs"
  then obtain acts ps' where r: "run_hooks evs ps = (acts, Inr ps')"
    using run_hooks_total by blast
  from run_hooks_step [OF r] r show ?thesis by simp
qed

theorem step_counts_finished_witness:
  "list_all has_status [downloading_event, finished_event]
   \<and> (\<exists>acts ps'. run_hooks [downloading_event, finished_event] \<lparr>step = 1, total_steps = 2\<rparr>
                     = (acts, Inr ps')
        \<and> step ps' = 2 \<and> total_steps ps' = 2 \<and> step ps' \<le> total_steps ps' + 1)"
proof -
  have h: "list_all has_status [downloading_event, finished_event]"
    by (simp add: has_status_def py_getitem_def downloading_event_def finished_event_def)
  have c: "count_finished [downloading_event, finished_event] = 1"
    by (simp add: count_finished_def is_finished_def py_getitem_def downloading_event_def
                  finished_event_def)
  show ?thesis
    using h step_counts_finished [OF h, of "\<lparr>step = 1, total_steps = 2\<rparr>"]
    by (simp add: c)
qed

text \<open>
  C3, as stated, fails: from the fresh state of an mp4 download (step 1 of 2), three
  events with status \<^verbatim>\<open>finished\<close> leave the step at 4, which exceeds the total plus 1.
\<close>

theorem step_exceeds_total:
  "snd (run_hooks [finished_event, finished_event, finished_event]
          (snd (snd (download_plan ''mp4'' ''720p''))))
     = Inr \<lparr>step = 4, total_steps = 2\<rparr>
   \<and> \<not> step \<lparr>step = 4, total_steps = 2\<rparr> \<le> total_steps \<lparr>step = 4, total_steps = 2\<rparr> + 1"
  by (simp add: download_plan_def progress_hook_def py_getitem_def finished_event_def Let_def)

subsection \<open>Download Orchestrator\<close>





subsection \<open>Quality Extractor\<close>

lemma collect_step_dict:
  "collect_step (PDict d) q = Inr (fold set_add (entry_heights d) q)"
  by (auto simp: collect_step_def entry_heights_def accepts_def is_int_instance_def
           split: pyval.splits)

lemma collect_dicts:
  "collect (map PDict fs) q = Inr (fold set_add (accepted_heights fs) q)"
  by (induction fs arbitrary: q) (simp_all add: collect_step_dict accepted_heights_def)

lemma set_add_props:
  "distinct (map int_of_pyint q) \<Longrightarrow>
   distinct (map int_of_pyint (set_add x q))
   \<and> set (set_add x q) \<subseteq> insert x (set q)
   \<and> int_of_pyint ` set (set_add x q) = insert (int_of_pyint x) (int_of_pyint ` set q)"
  by (auto simp: set_add_def list_ex_iff) (metis imageI)

lemma fold_set_add_props:
  "distinct (map int_of_pyint q) \<Longrightarrow>
   distinct (map int_of_pyint (fold set_add hs q))
   \<and> set (fold set_add hs q) \<subseteq> set q \<union> set hs
   \<and> int_of_pyint ` set (fold set_add hs q) = int_of_pyint ` (set q \<union> set hs)"
proof (induction hs arbitrary: q)
  case Nil
  then show ?case by simp
next
  case (Cons h hs)
  from set_add_props [OF Cons.prems, of h]
  have d: "distinct (map int_of_pyint (set_add h q))"
    and s: "set (set_add h q) \<subseteq> insert h (set q)"
    and i: "int_of_pyint ` set (set_add h q) = insert (int_of_pyint h) (int_of_pyint ` set q)"
    by blast+
  from Cons.IH [OF d]
  have d': "distinct (map int_of_pyint (fold set_add hs (set_add h q)))"
    and s': "set (fold set_add hs (set_add h q)) \<subseteq> set (set_add h q) \<union> set hs"
    and i': "int_of_pyint ` set (fold set_add hs (set_add h q))
               = int_of_pyint ` (set (set_add h q) \<union> set hs)"
    by blast+
  have "int_of_pyint ` (set (set_add h q) \<union> set hs) = int_of_pyint ` (set q \<union> set (h # hs))"
    using i by (simp add: image_Un)
  with d' s' i' s show ?case by auto
qed

lemma map_insort_key:
  "map f (insort_key f x xs) = insort (f x) (map f xs)"
  by (induction xs) simp_all

lemma map_sort_key: "map f (sort_key f xs) = sort (map f xs)"
  by (induction xs) (simp_all add: map_insort_key)

lemma py_sorted_reverse_values:
  assumes "distinct (map int_of_pyint s)"
  shows "map int_of_pyint (py_sorted_reverse s) = rev (sorted_list_of_set (int_of_pyint ` set s))"
proof -
  have d: "distinct (map int_of_pyint (rev s))"
    using assms by (simp add: distinct_map)
  have "map int_of_pyint (py_sorted_reverse s) = rev (map int_of_pyint (sort_key int_of_pyint (rev s)))"
    unfolding py_sorted_reverse_def by (rule rev_map [symmetric])
  also have "map int_of_pyint (sort_key int_of_pyint (rev s)) = sort (map int_of_pyint (rev s))"
    by (rule map_sort_key)
  also have "\<dots> = sort (remdups (map int_of_pyint (rev s)))"
    using d by (simp only: distinct_remdups_id)
  also have "\<dots> = sorted_list_of_set (set (map int_of_pyint (rev s)))"
    by (simp only: sorted_list_of_set_sort_remdups)
  also have "set (map int_of_pyint (rev s)) = int_of_pyint ` set s"
    by simp
  finally show ?thesis .
qed

lemma set_py_sorted_reverse: "set (py_sorted_reverse s) = set s"
  by (simp add: py_sorted_reverse_def)


lemma length_py_sorted_reverse: "length (py_sorted_reverse s) = length s"
  by (simp add: py_sorted_reverse_def)

lemma py_sorted_reverse_Nil: "py_sorted_reverse s = [] \<longleftrightarrow> s = []"
  using length_py_sorted_reverse [of s] by (metis length_0_conv)

lemma extract_missing:
  "map_of d ''formats'' = None \<Longrightarrow>
   extract_available_qualities (PDict d) = Inr fallback_qualities"
  by (simp add: extract_available_qualities_def py_get_def dict_get_def py_iter_def
                fallback_qualities_def)

lemma extract_dicts:
  "map_of d ''formats'' = Some (PList (map PDict fs)) \<Longrightarrow>
   extract_available_qualities (PDict d) =
     Inr (if fold set_add (accepted_heights fs) [] = [] then fallback_qualities
          else map (\<lambda>q. str_pyint q @ ''p'')
                 (py_sorted_reverse (fold set_add (accepted_heights fs) [])))"
  by (simp add: extract_available_qualities_def py_get_def dict_get_def py_iter_def
                collect_dicts fallback_qualities_def)

lemma fold_set_add_empty: "fold set_add hs [] = [] \<longleftrightarrow> hs = []"
proof
  assume e: "fold set_add hs [] = []"
  have "int_of_pyint ` set (fold set_add hs []) = int_of_pyint ` (set [] \<union> set hs)"
    using fold_set_add_props [of "[]" hs] by simp
  with e show "hs = []" by simp
qed simp

lemma set_accepted_heights:
  "set (accepted_heights fs) =
     {h. \<exists>f \<in> set fs. accepts f \<and> dict_get f ''height'' PNone = PNum h}"
  by (auto simp: accepted_heights_def entry_heights_def split: pyval.splits if_splits)

lemma accepted_heights_none:
  "list_all (\<lambda>f. \<not> accepts f) fs \<Longrightarrow> accepted_heights fs = []"
  by (induction fs) (simp_all add: accepted_heights_def entry_heights_def)

lemma accepted_heights_filter:
  "accepted_heights (filter (\<lambda>f. is_int_instance (dict_get f ''height'' PNone)) fs)
     = accepted_heights fs"
  by (induction fs) (simp_all add: accepted_heights_def entry_heights_def accepts_def)

lemma all_dicts: "list_all is_dict fs \<Longrightarrow> \<exists>ds. fs = map PDict ds"
proof (induction fs)
  case Nil
  show ?case by simp
next
  case (Cons f fs)
  then obtain ds where "fs = map PDict ds" by auto
  moreover from Cons.prems obtain d where "f = PDict d"
    by (cases f) (simp_all add: is_dict_def)
  ultimately have "f # fs = map PDict (d # ds)" by simp
  then show ?case by (rule exI)
qed

text \<open>
  C1. For metadata whose formats are a list of entries, the Quality Extractor returns the
  fallback when no entry is accepted, and otherwise the texts \<^verbatim>\<open><h>p\<close> of a list
  of heights: each of them is the height of an entry whose codec is not \<^verbatim>\<open>none\<close>,
  whose container is \<^verbatim>\<open>mp4\<close> and whose height is an integer, and their values are
  exactly the distinct values of all such heights, in descending order. For the example
  of the specification the result is 1080p, 720p, 480p.
\<close>

theorem qualities_distinct_descending:
  assumes "map_of d ''formats'' = Some (PList (map PDict fs))"
  shows "\<exists>hs. extract_available_qualities (PDict d) =
                Inr (if accepted_heights fs = [] then fallback_qualities
                     else map (\<lambda>h. str_pyint h @ ''p'') hs)
           \<and> set hs \<subseteq> {h. \<exists>f \<in> set fs. accepts f \<and> dict_get f ''height'' PNone = PNum h}
           \<and> map int_of_pyint hs =
               rev (sorted_list_of_set
                     (int_of_pyint ` {h. \<exists>f \<in> set fs. accepts f \<and> dict_get f ''height'' PNone = PNum h}))"
proof -
  let ?q = "fold set_add (accepted_heights fs) []"
  have p: "distinct (map int_of_pyint ?q)
           \<and> set ?q \<subseteq> set [] \<union> set (accepted_heights fs)
           \<and> int_of_pyint ` set ?q = int_of_pyint ` (set [] \<union> set (accepted_heights fs))"
    by (rule fold_set_add_props) simp
  have a: "extract_available_qualities (PDict d) =
             Inr (if accepted_heights fs = [] then fallback_qualities
                  else map (\<lambda>h. str_pyint h @ ''p'') (py_sorted_reverse ?q))"
    using extract_dicts [OF assms] by (simp add: fold_set_add_empty)
  have b: "set (py_sorted_reverse ?q) \<subseteq> set (accepted_heights fs)"
    using p by (simp add: set_py_sorted_reverse)
  have c: "map int_of_pyint (py_sorted_reverse ?q) =
             rev (sorted_list_of_set (int_of_pyint ` set (accepted_heights fs)))"
    using p py_sorted_reverse_values [of ?q] by simp
  from a b c show ?thesis
    unfolding set_accepted_heights by blast
qed

lemma example_formats_lookup:
  "map_of example_metadata ''formats'' = Some (PList (map PDict example_formats))"
  by (simp add: example_metadata_def)

lemma example_qualities:
  "extract_available_qualities (PDict example_metadata) = Inr [''1080p'', ''720p'', ''480p'']"
  by code_simp


theorem qualities_distinct_descending_witness:
  "map_of example_metadata ''formats'' = Some (PList (map PDict example_formats))
   \<and> extract_available_qualities (PDict example_metadata) = Inr [''1080p'', ''720p'', ''480p'']
   \<and> (\<exists>hs. extract_available_qualities (PDict example_metadata) =
               Inr (if accepted_heights example_formats = [] then fallback_qualities
                    else map (\<lambda>h. str_pyint h @ ''p'') hs))"
  using qualities_distinct_descending [OF example_formats_lookup]
        example_formats_lookup example_qualities
  by blast

text \<open>
  C4. Metadata without formats gives the fallback; so does metadata whose formats hold
  no accepted entry, the empty list included. For every list of entries the extractor
  returns a result and raises nothing, and the entries whose height is missing or is
  not an integer do not change the result.
\<close>

theorem fallback_when_nothing_accepted:
  "(map_of d ''formats'' = None \<longrightarrow>
      extract_available_qualities (PDict d) = Inr fallback_qualities)
   \<and> (map_of d ''formats'' = Some (PList (map PDict fs)) \<and> list_all (\<lambda>f. \<not> accepts f) fs \<longrightarrow>
      extract_available_qualities (PDict d) = Inr fallback_qualities)
   \<and> (map_of d ''formats'' = Some (PList (map PDict fs)) \<longrightarrow>
      (\<exists>r. extract_available_qualities (PDict d) = Inr r)
      \<and> extract_available_qualities (PDict d) =
          extract_available_qualities
            (PDict [(''formats'',
                     PList (map PDict
                       (filter (\<lambda>f. is_int_instance (dict_get f ''height'' PNone)) fs)))]))"
proof (intro conjI impI)
  assume "map_of d ''formats'' = None"
  then show "extract_available_qualities (PDict d) = Inr fallback_qualities"
    by (rule extract_missing)
next
  assume "map_of d ''formats'' = Some (PList (map PDict fs)) \<and> list_all (\<lambda>f. \<not> accepts f) fs"
  then show "extract_available_qualities (PDict d) = Inr fallback_qualities"
    using extract_dicts [of d fs] accepted_heights_none [of fs] by simp
next
  assume "map_of d ''formats'' = Some (PList (map PDict fs))"
  then show "\<exists>r. extract_available_qualities (PDict d) = Inr r"
    using extract_dicts [of d fs] by simp
next
  let ?fs = "filter (\<lambda>f. is_int_instance (dict_get f ''height'' PNone)) fs"
  assume h: "map_of d ''formats'' = Some (PList (map PDict fs))"
  have "map_of [(''formats'', PList (map PDict ?fs))] ''formats'' = Some (PList (map PDict ?fs))"
    by simp
  from extract_dicts [OF h] extract_dicts [OF this]
  show "extract_available_qualities (PDict d) =
          extract_available_qualities (PDict [(''formats'', PList (map PDict ?fs))])"
    by (simp only: accepted_heights_filter)
qed

lemma rejected_all: "list_all (\<lambda>f. \<not> accepts f) rejected_formats"
  by (simp add: rejected_formats_def accepts_def video_format_def dict_get_def
                is_int_instance_def)

theorem fallback_when_nothing_accepted_witness:
  "map_of [(''title'', PStr ''Example'')] ''formats'' = None
   \<and> extract_available_qualities (PDict [(''title'', PStr ''Example'')]) = Inr [''720p'', ''360p'']
   \<and> extract_available_qualities (PDict [(''formats'', PList (map PDict []))])
       = Inr [''720p'', ''360p'']
   \<and> list_all (\<lambda>f. \<not> accepts f) rejected_formats
   \<and> extract_available_qualities (PDict [(''formats'', PList (map PDict rejected_formats))])
       = Inr [''720p'', ''360p'']"
proof -
  have a: "map_of [(''title'', PStr ''Example'')] ''formats'' = None"
    by simp
  have b: "map_of [(''formats'', PList (map PDict []))] ''formats'' = Some (PList (map PDict []))
           \<and> list_all (\<lambda>f. \<not> accepts f) []"
    by simp
  have c: "map_of [(''formats'', PList (map PDict rejected_formats))] ''formats''
             = Some (PList (map PDict rejected_formats))
           \<and> list_all (\<lambda>f. \<not> accepts f) rejected_formats"
    using rejected_all by simp
  show ?thesis
    using fallback_when_nothing_accepted [of "[(''title'', PStr ''Example'')]" "[]"]
          fallback_when_nothing_accepted [of "[(''formats'', PList (map PDict []))]" "[]"]
          fallback_when_nothing_accepted
            [of "[(''formats'', PList (map PDict rejected_formats))]" rejected_formats]
          a b c
    by (simp add: fallback_qualities_def del: map_of.simps list.map)
qed

text \<open>
  C10. The extractor never returns an empty list, and it returns a list for every
  metadata dictionary whose formats are missing or are a list of entries.
\<close>

theorem qualities_never_empty:
  "(extract_available_qualities info_dict = Inr r \<longrightarrow> r \<noteq> [])
   \<and> (formats_ok d \<longrightarrow> (\<exists>r. extract_available_qualities (PDict d) = Inr r \<and> r \<noteq> []))"
proof (intro conjI impI)
  assume "extract_available_qualities info_dict = Inr r"
  then show "r \<noteq> []"
    by (auto simp: extract_available_qualities_def py_sorted_reverse_Nil
             split: sum.splits if_splits)
next
  assume ok: "formats_ok d"
  show "\<exists>r. extract_available_qualities (PDict d) = Inr r \<and> r \<noteq> []"
  proof (cases "map_of d ''formats''")
    case None
    then show ?thesis
      using extract_missing [of d] by (simp add: fallback_qualities_def)
  next
    case (Some v)
    with ok obtain fs where v: "v = PList fs" and "list_all is_dict fs"
      by (cases v) (simp_all add: formats_ok_def)
    then obtain ds where "fs = map PDict ds"
      using all_dicts by blast
    with Some v have "map_of d ''formats'' = Some (PList (map PDict ds))" by simp
    from extract_dicts [OF this] show ?thesis
      by (simp add: fallback_qualities_def py_sorted_reverse_Nil)
  qed
qed

lemma example_formats_ok: "formats_ok example_metadata"
  by (simp add: formats_ok_def example_metadata_def example_formats_def is_dict_def)

theorem qualities_never_empty_witness:
  "formats_ok example_metadata
   \<and> extract_available_qualities (PDict example_metadata) = Inr [''1080p'', ''720p'', ''480p'']
   \<and> [''1080p'', ''720p'', ''480p''] \<noteq> ([] :: string list)
   \<and> (\<exists>r. extract_available_qualities (PDict example_metadata) = Inr r \<and> r \<noteq> [])"
  using qualities_never_empty [of "PDict example_metadata" "[''1080p'', ''720p'', ''480p'']"
                                  example_metadata]
        example_formats_ok example_qualities
  by blast

subsection \<open>Display Sanitizer\<close>






































subsection \<open>Behaviour at the edges of the claims\<close>

text \<open>
  \<^verbatim>\<open>re.sub\<close> makes one pass: a sequence that only comes into being when another one is
  removed stays in the result.
\<close>

lemma one_pass_only:
  "sanitize_for_display (PStr (esc # esc # ''[mA'')) = [esc, CHR ''A'']"
  by code_simp

text \<open>
  A height that is \<^verbatim>\<open>True\<close> passes \<^verbatim>\<open>isinstance(_, int)\<close> and is formatted as Python
  formats a \<^verbatim>\<open>bool\<close>.
\<close>

lemma bool_height_text:
  "extract_available_qualities
     (PDict [(''formats'', PList [PDict (video_format ''avc1.64001F'' ''mp4'' (PNum (PBool True)))])])
   = Inr [''Truep'']"
  by code_simp

text \<open>
  An empty list of requested downloads has no first entry: the subscript raises, and the
  handler at the top level reports the exception instead of the failed download.
\<close>

lemma empty_downloads_raise:
  "requested_filepath (PDict [(''requested_downloads'', PList [])]) = Inl IndexError"
  by (simp add: requested_filepath_def py_get_def dict_get_def py_first_def)

lemma empty_downloads_trace:
  "handle_download
     (no_file_world\<lparr>extract_result := Inr (PDict [(''requested_downloads'', PList [])])\<rparr>)
     ''u'' ''t'' ''mp3'' ''128''
   = [StatusOpen ''Starting...'',
      StatusUpdate ''Step 1/1: Initializing...'' None None,
      WriteStarting,
      ExtractInfo ''u''
        \<lparr>outtmpl = ''/tmp/tmpab12/t.%(ext)s'', format_sel = ''bestaudio/best'',
         postprocessors =
           [PDict [(''key'', PStr ''FFmpegExtractAudio''), (''preferredcodec'', PStr ''mp3''),
                   (''preferredquality'', PStr ''128'')]]\<rparr>,
      StatusUpdate ''Step 1/1: Download finished. Starting conversion...'' None None,
      UnexpectedError IndexError]"
  by code_simp

end
